theory Spec2Isabelle
  imports Main "HOL-Library.Word"
begin

unbundle bit_operations_syntax

section \<open>Processor state\<close>

text \<open>
  The kernel targets x86-64: \<open>uint32_t\<close> is a 32-bit word, \<open>uint64_t\<close>,
  \<open>size_t\<close> and \<open>uintptr_t\<close> are 64-bit words, \<open>off_t\<close> is a signed
  64-bit integer kept as its 64-bit pattern and read with \<open>sint\<close>.
\<close>

type_synonym u8 = "8 word"
type_synonym u32 = "32 word"
type_synonym u64 = "64 word"

text \<open>The four output registers of one \<open>cpuid\<close> instruction.\<close>

record cpuid_regs =
  EAX :: u32
  EBX :: u32
  ECX :: u32
  EDX :: u32

text \<open>
  What a processor answers to \<open>cpuid\<close>: the outputs for the leaf in \<open>eax\<close> and
  the sub-leaf in \<open>ecx\<close>.
\<close>

type_synonym cpuid_fn = "u32 \<Rightarrow> u32 \<Rightarrow> cpuid_regs"

text \<open>
  The four static routines of \<open>cpu.c\<close> whose addresses are stored in the function
  pointers \<open>cpu_fpu_save\<close> and \<open>cpu_fpu_restore\<close>. A null pointer is \<open>None\<close>.
\<close>

datatype fpu_routine = xsave | xrstor | fxsave | fxrstor

text \<open>
  The privileged instructions with a side effect that \<open>cpu_init\<close> executes, in
  program order: a move to a control register (with the value written), \<open>wrmsr\<close>
  and \<open>xsetbv\<close> (index, \<open>edx\<close>, \<open>eax\<close>) and \<open>clac\<close>.
\<close>

datatype event =
    WriteCR string u64
  | Wrmsr u32 u32 u32
  | Xsetbv u32 u32 u32
  | Clac

text \<open>
  The state \<open>cpu_init\<close> works on: the control registers by name, the model-specific
  registers and the extended control registers by index, the \<open>AC\<close> flag of
  \<open>RFLAGS\<close> (the transient "access allowed" flag that \<open>clac\<close> clears), what
  \<open>cpuid\<close> answers for each leaf and sub-leaf, the log of executed privileged
  instructions, and the three globals of \<open>cpu.c\<close>. None of the leaves
  \<open>cpu_init\<close> queries and none of the bits it tests changes while it runs, so
  \<open>cpuid_hw\<close> is a table.
\<close>

record machine =
  cr :: "string \<Rightarrow> u64"
  msr :: "u32 \<Rightarrow> u64"
  xcr :: "u32 \<Rightarrow> u64"
  ac_flag :: bool
  cpuid_hw :: cpuid_fn
  trace :: "event list"
  cpu_fpu_storage_size :: u64
  cpu_fpu_save :: "fpu_routine option"
  cpu_fpu_restore :: "fpu_routine option"

section \<open>Register access layer\<close>

text \<open>
  Modelled from the spec: the macros \<open>read_cr\<close> and \<open>write_cr\<close> of
  \<open>klibc/asm.h\<close> (section 4.1: read or write a control register by index; a write
  mutates the privileged state directly).
\<close>

definition read_cr :: "string \<Rightarrow> machine \<Rightarrow> u64" where
  "read_cr reg m = cr m reg"

definition write_cr :: "string \<Rightarrow> u64 \<Rightarrow> machine \<Rightarrow> machine" where
  "write_cr reg v m = m\<lparr>cr := (cr m)(reg := v), trace := trace m @ [WriteCR reg v]\<rparr>"

text \<open>
  \<open>rdmsr\<close>: the instruction leaves the low half of the register in \<open>eax\<close> and the
  high half in \<open>edx\<close>; the function returns \<open>((uint64_t)edx << 32) | eax\<close>.
\<close>

definition rdmsr :: "u32 \<Rightarrow> machine \<Rightarrow> u64" where
  "rdmsr i m =
     (let eax = (ucast (msr m i) :: u32);
          edx = (ucast (drop_bit 32 (msr m i)) :: u32)
      in push_bit 32 (ucast edx) OR ucast eax)"

text \<open>
  \<open>wrmsr\<close>: \<open>edx = value >> 32\<close>, \<open>eax = (uint32_t)value\<close>; the instruction
  stores \<open>edx:eax\<close> in the register.
\<close>

definition wrmsr :: "u32 \<Rightarrow> u64 \<Rightarrow> machine \<Rightarrow> machine" where
  "wrmsr i v m =
     (let edx = (ucast (drop_bit 32 v) :: u32);
          eax = (ucast v :: u32)
      in m\<lparr>msr := (msr m)(i := push_bit 32 (ucast edx) OR ucast eax),
            trace := trace m @ [Wrmsr i edx eax]\<rparr>)"

text \<open>\<open>wrxcr\<close>: the same split, executed by \<open>xsetbv\<close>.\<close>

definition wrxcr :: "u32 \<Rightarrow> u64 \<Rightarrow> machine \<Rightarrow> machine" where
  "wrxcr i v m =
     (let edx = (ucast (drop_bit 32 v) :: u32);
          eax = (ucast v :: u32)
      in m\<lparr>xcr := (xcr m)(i := push_bit 32 (ucast edx) OR ucast eax),
            trace := trace m @ [Xsetbv i edx eax]\<rparr>)"

text \<open>\<open>asm("clac")\<close> clears the \<open>AC\<close> flag.\<close>

definition clac :: "machine \<Rightarrow> machine" where
  "clac m = m\<lparr>ac_flag := False, trace := trace m @ [Clac]\<rparr>"

section \<open>Feature probe\<close>

text \<open>
  \<open>__get_cpuid_max\<close> and \<open>__get_cpuid\<close> of the compiler's \<open><cpuid.h>\<close>, for
  x86-64. The macro \<open>__cpuid(level, a, b, c, d)\<close> loads only \<open>eax\<close> before the
  instruction; the sub-leaf is whatever \<open>ecx\<close> holds.

  \<open>__get_cpuid_max(ext, 0)\<close> runs it for leaf \<open>ext\<close> (0 or \<open>0x80000000\<close>, leaves
  that have no sub-leaves, read here at sub-leaf 0) and returns the \<open>eax\<close> output;
  the \<open>ecx\<close> output of that query stays in the register. The result here is the
  value returned and the content of \<open>ecx\<close> afterwards.

  \<open>__get_cpuid(leaf, ...)\<close>: a leaf above the highest one (or a highest leaf of 0)
  is not queried, the four outputs keep their values and the result is 0. Otherwise
  \<open>__cpuid(leaf, ...)\<close> runs with \<open>ecx\<close> as the query for the highest leaf left
  it: for leaf 0 that is the third word of the vendor string.
\<close>

definition get_cpuid_max :: "cpuid_fn \<Rightarrow> u32 \<Rightarrow> u32 \<times> u32" where
  "get_cpuid_max hw ext = (EAX (hw ext 0), ECX (hw ext 0))"

definition get_cpuid :: "cpuid_fn \<Rightarrow> u32 \<Rightarrow> cpuid_regs \<Rightarrow> bool \<times> cpuid_regs" where
  "get_cpuid hw leaf abcd =
     (let ext = leaf AND 0x80000000;
          (maxlevel, rcx) = get_cpuid_max hw ext
      in if maxlevel = 0 \<or> maxlevel < leaf then (False, abcd) else (True, hw leaf rcx))"

text \<open>
  What the queries of \<open>cpu_init\<close> for leaf 1 and leaf 7 report, on outputs that
  start as 0 (so that a leaf the processor does not have reports no flag).
\<close>

definition zero_regs :: cpuid_regs where
  "zero_regs = \<lparr>EAX = 0, EBX = 0, ECX = 0, EDX = 0\<rparr>"

definition leaf1 :: "cpuid_fn \<Rightarrow> cpuid_regs" where
  "leaf1 hw = snd (get_cpuid hw 1 zero_regs)"

definition leaf7 :: "cpuid_fn \<Rightarrow> cpuid_regs" where
  "leaf7 hw = snd (get_cpuid hw 7 zero_regs)"

text \<open>The feature bits of \<open><cpuid.h>\<close> that \<open>cpu_init\<close> tests.\<close>

definition bit_XSAVE :: u32 where
  "bit_XSAVE = push_bit 26 1"

definition bit_AVX :: u32 where
  "bit_AVX = push_bit 28 1"

definition bit_AVX512F :: u32 where
  "bit_AVX512F = push_bit 16 1"

text \<open>
  The masks \<open>CPUID_SMEP\<close>, \<open>CPUID_SMAP\<close> and \<open>CPUID_UMIP\<close> come from
  \<open>cpu.h\<close>, which is not among the sources: they are parameters of the model.
\<close>

record cpu_h =
  CPUID_SMEP :: u32
  CPUID_SMAP :: u32
  CPUID_UMIP :: u32

text \<open>
  The capabilities of the processor. Leaf 1 has no sub-leaves, so \<open>XSAVE\<close> and
  \<open>AVX\<close> are what the query of \<open>cpu_init\<close> reports. The flags of leaf 7 are
  those of its sub-leaf 0, on a processor that has the leaf.
\<close>

definition has_xsave :: "cpuid_fn \<Rightarrow> bool" where
  "has_xsave hw = (ECX (leaf1 hw) AND bit_XSAVE \<noteq> 0)"

definition has_avx :: "cpuid_fn \<Rightarrow> bool" where
  "has_avx hw = (ECX (leaf1 hw) AND bit_AVX \<noteq> 0)"

definition has_smap :: "cpu_h \<Rightarrow> cpuid_fn \<Rightarrow> bool" where
  "has_smap h hw = (7 \<le> EAX (hw 0 0) \<and> EBX (hw 7 0) AND CPUID_SMAP h \<noteq> 0)"

definition has_avx512f :: "cpuid_fn \<Rightarrow> bool" where
  "has_avx512f hw = (7 \<le> EAX (hw 0 0) \<and> EBX (hw 7 0) AND bit_AVX512F \<noteq> 0)"

text \<open>
  What \<open>cpu_init\<close> sees of leaf 7: the flags in the answer to its own query, which
  is made at the sub-leaf that the query for the highest leaf left in \<open>ecx\<close>.
\<close>

definition sees_smap :: "cpu_h \<Rightarrow> cpuid_fn \<Rightarrow> bool" where
  "sees_smap h hw = (EBX (leaf7 hw) AND CPUID_SMAP h \<noteq> 0)"

definition sees_avx512f :: "cpuid_fn \<Rightarrow> bool" where
  "sees_avx512f hw = (EBX (leaf7 hw) AND bit_AVX512F \<noteq> 0)"

section \<open>Per-core initialisation: \<open>cpu_init\<close>\<close>

text \<open>Lines 106 to 110: clear \<open>CR0.EM\<close> (bit 2), set \<open>CR0.MP\<close> (bit 1).\<close>

definition cpu_init_cr0 :: "machine \<Rightarrow> machine" where
  "cpu_init_cr0 m =
     (let cr0 = read_cr ''0'' m;
          cr0 = cr0 AND NOT (push_bit 2 1);
          cr0 = cr0 OR push_bit 1 1
      in write_cr ''0'' cr0 m)"

text \<open>
  Lines 112 to 120: \<open>cr4 |= (3 << 9)\<close>, written back, then \<open>CR4\<close> is read again,
  \<open>cr4 |= (1 << 2)\<close>, written back.
\<close>

definition cpu_init_cr4 :: "machine \<Rightarrow> machine" where
  "cpu_init_cr4 m =
     (let cr4 = read_cr ''4'' m;
          cr4 = cr4 OR push_bit 9 3;
          m = write_cr ''4'' cr4 m;
          cr4 = read_cr ''4'' m;
          cr4 = cr4 OR push_bit 2 1
      in write_cr ''4'' cr4 m)"

text \<open>
  Lines 124 to 130: \<open>CR4\<close> bit 20 when the query of leaf 7 reports \<open>CPUID_SMEP\<close>
  in \<open>ebx\<close>.
\<close>

definition cpu_init_smep :: "cpu_h \<Rightarrow> machine \<Rightarrow> cpuid_regs \<Rightarrow> machine \<times> cpuid_regs" where
  "cpu_init_smep h m abcd =
     (let (ok, abcd) = get_cpuid (cpuid_hw m) 7 abcd
      in if ok then
           if EBX abcd AND CPUID_SMEP h \<noteq> 0 then
             (let cr4 = read_cr ''4'' m;
                  cr4 = cr4 OR push_bit 20 1
              in (write_cr ''4'' cr4 m, abcd))
           else (m, abcd)
         else (m, abcd))"

text \<open>
  Lines 132 to 139: \<open>CR4\<close> bit 21 when the query of leaf 7 reports
  \<open>CPUID_SMAP\<close> in \<open>ebx\<close>, then \<open>clac\<close>.
\<close>

definition cpu_init_smap :: "cpu_h \<Rightarrow> machine \<Rightarrow> cpuid_regs \<Rightarrow> machine \<times> cpuid_regs" where
  "cpu_init_smap h m abcd =
     (let (ok, abcd) = get_cpuid (cpuid_hw m) 7 abcd
      in if ok then
           if EBX abcd AND CPUID_SMAP h \<noteq> 0 then
             (let cr4 = read_cr ''4'' m;
                  cr4 = cr4 OR push_bit 21 1;
                  m = write_cr ''4'' cr4 m
              in (clac m, abcd))
           else (m, abcd)
         else (m, abcd))"

text \<open>
  Lines 141 to 147: \<open>CR4\<close> bit 11 when the query of leaf 7 reports \<open>CPUID_UMIP\<close>
  in \<open>ecx\<close>.
\<close>

definition cpu_init_umip :: "cpu_h \<Rightarrow> machine \<Rightarrow> cpuid_regs \<Rightarrow> machine \<times> cpuid_regs" where
  "cpu_init_umip h m abcd =
     (let (ok, abcd) = get_cpuid (cpuid_hw m) 7 abcd
      in if ok then
           if ECX abcd AND CPUID_UMIP h \<noteq> 0 then
             (let cr4 = read_cr ''4'' m;
                  cr4 = cr4 OR push_bit 11 1
              in (write_cr ''4'' cr4 m, abcd))
           else (m, abcd)
         else (m, abcd))"

text \<open>
  Lines 150 to 154, the page-attribute table: \<open>pat_msr &= 0xFFFFFFFF\<close>,
  \<open>pat_msr |= (uint64_t)0x0105 << 32\<close>.
\<close>

definition cpu_init_pat :: "machine \<Rightarrow> machine" where
  "cpu_init_pat m =
     (let pat_msr = rdmsr 0x277 m;
          pat_msr = pat_msr AND 0xFFFFFFFF;
          pat_msr = pat_msr OR push_bit 32 0x0105
      in wrmsr 0x277 pat_msr m)"

text \<open>
  Lines 156 to 186. The result of \<open>__get_cpuid(1, ...)\<close> is not tested. In the
  \<open>bit_XSAVE\<close> branch the size stored is \<open>(size_t)c\<close>, with \<open>c\<close> as the last
  \<open>__get_cpuid\<close> call left it.
\<close>

definition cpu_init_fpu :: "machine \<Rightarrow> cpuid_regs \<Rightarrow> machine" where
  "cpu_init_fpu m abcd =
     (let (_, abcd) = get_cpuid (cpuid_hw m) 1 abcd
      in if ECX abcd AND bit_XSAVE \<noteq> 0 then
           (let cr4 = read_cr ''4'' m;
                cr4 = cr4 OR push_bit 18 1;
                m = write_cr ''4'' cr4 m;
                xcr0 = (0 :: u64);
                xcr0 = xcr0 OR push_bit 0 1;
                xcr0 = xcr0 OR push_bit 1 1;
                xcr0 = (if ECX abcd AND bit_AVX \<noteq> 0 then xcr0 OR push_bit 2 1 else xcr0);
                (ok, abcd) = get_cpuid (cpuid_hw m) 7 abcd;
                xcr0 = (if ok then
                          if EBX abcd AND bit_AVX512F \<noteq> 0
                          then xcr0 OR push_bit 5 1 OR push_bit 6 1 OR push_bit 7 1
                          else xcr0
                        else xcr0);
                m = wrxcr 0 xcr0 m
            in m\<lparr>cpu_fpu_storage_size := ucast (ECX abcd),
                  cpu_fpu_save := Some xsave,
                  cpu_fpu_restore := Some xrstor\<rparr>)
         else
           m\<lparr>cpu_fpu_storage_size := 512,
             cpu_fpu_save := Some fxsave,
             cpu_fpu_restore := Some fxrstor\<rparr>)"

text \<open>
  \<open>cpu_init\<close>, the blocks in program order. The locals \<open>a\<close>, \<open>b\<close>, \<open>c\<close>,
  \<open>d\<close> are declared with value 0 at line 123 and shared by every later query.
\<close>

definition cpu_init :: "cpu_h \<Rightarrow> machine \<Rightarrow> machine" where
  "cpu_init h m =
     (let m = cpu_init_cr0 m;
          m = cpu_init_cr4 m;
          abcd = zero_regs;
          (m, abcd) = cpu_init_smep h m abcd;
          (m, abcd) = cpu_init_smap h m abcd;
          (m, abcd) = cpu_init_umip h m abcd;
          m = cpu_init_pat m
      in cpu_init_fpu m abcd)"

text \<open>The privileged instructions a run of \<open>cpu_init\<close> adds to the log.\<close>

definition cpu_init_events :: "cpu_h \<Rightarrow> machine \<Rightarrow> event list" where
  "cpu_init_events h m = drop (length (trace m)) (trace (cpu_init h m))"

text \<open>The blocks of \<open>cpu_init\<close> before the last one, as \<open>cpu_init\<close> chains them.\<close>

definition before_fpu :: "cpu_h \<Rightarrow> machine \<Rightarrow> machine" where
  "before_fpu h m =
     cpu_init_pat (fst (cpu_init_umip h (fst (cpu_init_smap h (fst (cpu_init_smep h
       (cpu_init_cr4 (cpu_init_cr0 m)) zero_regs)) (leaf7 (cpuid_hw m)))) (leaf7 (cpuid_hw m))))"

text \<open>
  The value of \<open>xcr0\<close> at line 176 in terms of what the queries report: bits 0 and
  1, bit 2 with \<open>AVX\<close>, bits 5, 6 and 7 when the query of leaf 7 reports
  \<open>AVX-512F\<close>.
\<close>

definition xcr0_value :: "cpuid_fn \<Rightarrow> u64" where
  "xcr0_value hw =
     push_bit 0 1 OR push_bit 1 1 OR (if has_avx hw then push_bit 2 1 else 0) OR
     (if sees_avx512f hw then push_bit 5 1 OR push_bit 6 1 OR push_bit 7 1 else 0)"


text \<open>
  \<open>CR4\<close> after a sequence of logged instructions, starting from the value
  \<open>cur\<close>: the last value written to it.
\<close>

fun cr4_after :: "u64 \<Rightarrow> event list \<Rightarrow> u64" where
  "cr4_after cur [] = cur"
| "cr4_after cur (WriteCR reg v # es) = cr4_after (if reg = ''4'' then v else cur) es"
| "cr4_after cur (Wrmsr i hi lo # es) = cr4_after cur es"
| "cr4_after cur (Xsetbv i hi lo # es) = cr4_after cur es"
| "cr4_after cur (Clac # es) = cr4_after cur es"

text \<open>
  Every write to \<open>CR4\<close> in a sequence of logged instructions keeps every bit of the
  value \<open>CR4\<close> held just before it (\<open>cur\<close> at the start): \<open>old AND v = old\<close>.
\<close>

fun cr4_only_ored :: "u64 \<Rightarrow> event list \<Rightarrow> bool" where
  "cr4_only_ored cur [] = True"
| "cr4_only_ored cur (WriteCR reg v # es) =
     (if reg = ''4'' then cur AND v = cur \<and> cr4_only_ored v es else cr4_only_ored cur es)"
| "cr4_only_ored cur (Wrmsr i hi lo # es) = cr4_only_ored cur es"
| "cr4_only_ored cur (Xsetbv i hi lo # es) = cr4_only_ored cur es"
| "cr4_only_ored cur (Clac # es) = cr4_only_ored cur es"

text \<open>
  One run from \<open>m\<close> to \<open>m'\<close> only adds to the log, each of its writes to
  \<open>CR4\<close> keeps the bits \<open>CR4\<close> held before it, and \<open>CR4\<close> of \<open>m'\<close> is what
  the logged writes make of \<open>CR4\<close> of \<open>m\<close>.
\<close>

definition cr4_grows :: "machine \<Rightarrow> machine \<Rightarrow> bool" where
  "cr4_grows m m' =
     (\<exists>evs. trace m' = trace m @ evs \<and> cr4_only_ored (cr m ''4'') evs \<and>
        cr m' ''4'' = cr4_after (cr m ''4'') evs)"

section \<open>Multiprocessor bootstrap: \<open>smp_init\<close>\<close>

text \<open>
  The fields of the boot protocol's \<open>struct stivale2_smp_info\<close> and
  \<open>struct stivale2_struct_tag_smp\<close> that \<open>cpu.c\<close> uses. The array \<open>smp_info\<close>
  is a list; the protocol gives it \<open>cpu_count\<close> entries.
\<close>

record stivale2_smp_info =
  processor_id :: u32
  lapic_id :: u32
  target_stack :: u64
  goto_address :: u64

record stivale2_struct_tag_smp =
  cpu_count :: u64
  smp_info :: "stivale2_smp_info list"

text \<open>
  What \<open>smp_init\<close> does to the rest of the kernel, in program order: a line on the
  console (format and argument), an allocation (size requested, base address returned)
  and the delay (microseconds).
\<close>

datatype smp_event =
    Printf string u64
  | Alloc u64 u64
  | Usleep u64

text \<open>
  Line 96 declares \<open>uint8_t *stack\<close>, so \<open>sizeof(stack)\<close> at line 97 is the size
  of a pointer: 8 on x86-64.
\<close>

definition sizeof_stack :: u64 where
  "sizeof_stack = 8"

text \<open>
  The loop of lines 95 to 99, from index \<open>i\<close>. The allocator \<open>alloc\<close> of
  \<open>klibc/alloc.h\<close> is not among the sources: it is a parameter that takes the heap
  and a size and returns a base address and the new heap (it always succeeds, as
  section 6 of the spec has it). \<open>cpu_start\<close> is the address of the trampoline. An
  index outside the array is \<open>None\<close>.
\<close>

function smp_init_loop ::
  "('h \<Rightarrow> u64 \<Rightarrow> u64 \<times> 'h) \<Rightarrow> u64 \<Rightarrow> stivale2_struct_tag_smp \<Rightarrow> 'h \<Rightarrow> smp_event list \<Rightarrow> nat
     \<Rightarrow> (stivale2_struct_tag_smp \<times> 'h \<times> smp_event list) option" where
  "smp_init_loop alloc cpu_start smp_tag h log i =
     (if i < unat (cpu_count smp_tag) then
        if i < length (smp_info smp_tag) then
          (let (stack, h) = alloc h 32768;
               info = smp_info smp_tag ! i;
               info = info\<lparr>target_stack := stack + sizeof_stack\<rparr>;
               info = info\<lparr>goto_address := cpu_start\<rparr>;
               smp_tag = smp_tag\<lparr>smp_info := (smp_info smp_tag)[i := info]\<rparr>
           in smp_init_loop alloc cpu_start smp_tag h (log @ [Alloc 32768 stack]) (i + 1))
        else None
      else Some (smp_tag, h, log))"
  by pat_completeness auto
termination
  by (relation "measure (\<lambda>(alloc, cpu_start, smp_tag, h, log, i). unat (cpu_count smp_tag) - i)")
    auto

text \<open>
  \<open>smp_init\<close>: the two console lines (the second reads \<open>smp_info[0]\<close>), the loop,
  the delay of 50000 microseconds.
\<close>

definition smp_init ::
  "('h \<Rightarrow> u64 \<Rightarrow> u64 \<times> 'h) \<Rightarrow> u64 \<Rightarrow> stivale2_struct_tag_smp \<Rightarrow> 'h
     \<Rightarrow> (stivale2_struct_tag_smp \<times> 'h \<times> smp_event list) option" where
  "smp_init alloc cpu_start smp_tag h =
     (case smp_info smp_tag of
        [] \<Rightarrow> None
      | first # _ \<Rightarrow>
          (let log = [Printf ''CPU: Total processor count: %d'' (cpu_count smp_tag),
                      Printf ''CPU: Processor %d online!'' (ucast (lapic_id first))]
           in case smp_init_loop alloc cpu_start smp_tag h log 0 of
                None \<Rightarrow> None
              | Some (smp_tag, h, log) \<Rightarrow> Some (smp_tag, h, log @ [Usleep 50000])))"

section \<open>The device file system: \<open>devtmpfs_write\<close>\<close>

text \<open>
  The fields of \<open>struct tmpfs_resource\<close> that \<open>devtmpfs_write\<close> uses:
  \<open>res.st.st_size\<close>, \<open>allocated_size\<close>, and the allocation \<open>data\<close> points to,
  as the list of its bytes.
\<close>

record tmpfs_resource =
  st_size :: u64
  allocated_size :: u64
  data :: "u8 list"

text \<open>A copy that leaves the destination's allocation is a fault.\<close>

datatype fault = OutOfBounds

text \<open>
  \<open>krealloc\<close> of \<open>liballoc\<close>, by the contract of \<open>realloc\<close>: the allocation has
  the new size and keeps its old bytes up to the smaller of the two sizes (the new
  bytes, indeterminate in C, are 0 here).
\<close>

definition krealloc :: "u8 list \<Rightarrow> nat \<Rightarrow> u8 list" where
  "krealloc p n = take n p @ replicate (n - length p) 0"

text \<open>
  \<open>memcpy(dst + off, src, n)\<close> into the allocation \<open>dst\<close>: \<open>off\<close> is the signed
  offset added to the pointer, \<open>src\<close> the memory read.
\<close>

definition memcpy_to :: "u8 list \<Rightarrow> int \<Rightarrow> (nat \<Rightarrow> u8) \<Rightarrow> nat \<Rightarrow> fault + u8 list" where
  "memcpy_to dst off src n =
     (if 0 \<le> off \<and> nat off + n \<le> length dst
      then Inr (take (nat off) dst @ map src [0..<n] @ drop (nat off + n) dst)
      else Inl OutOfBounds)"

text \<open>
  The loop of lines 79 and 80 on \<open>this->allocated_size\<close>. \<open>off + count\<close> is
  computed in \<open>size_t\<close> and \<open>allocated_size *= 2\<close> wraps; a loop that never ends
  is \<open>None\<close>.
\<close>

partial_function (option) grow_loop :: "u64 \<Rightarrow> u64 \<Rightarrow> u64 \<Rightarrow> u64 option" where
  "grow_loop off count allocated =
     (if off + count > allocated then grow_loop off count (allocated * 2) else Some allocated)"

text \<open>
  \<open>devtmpfs_write\<close>, lines 73 to 90, for one caller at a time (the lock is left
  out). \<open>None\<close>: the call never returns; \<open>Some (Inl OutOfBounds)\<close>: the copy
  leaves the allocation; \<open>Some (Inr (this, n))\<close>: the resource after the call and the
  value returned.
\<close>

definition devtmpfs_write ::
  "tmpfs_resource \<Rightarrow> (nat \<Rightarrow> u8) \<Rightarrow> u64 \<Rightarrow> u64 \<Rightarrow> (fault + tmpfs_resource \<times> u64) option" where
  "devtmpfs_write this buf off count =
     (case (if off + count > allocated_size this then
              (case grow_loop off count (allocated_size this) of
                 None \<Rightarrow> None
               | Some a \<Rightarrow>
                   Some (this\<lparr>allocated_size := a, data := krealloc (data this) (unat a)\<rparr>))
            else Some this) of
        None \<Rightarrow> None
      | Some this \<Rightarrow>
          (case memcpy_to (data this) (sint off) buf (unat count) of
             Inl e \<Rightarrow> Some (Inl e)
           | Inr d \<Rightarrow> Some (Inr (this\<lparr>data := d, st_size := st_size this + count\<rparr>, count))))"

section \<open>Concrete inputs\<close>

text \<open>
  A processor given by the third word of its vendor string (\<open>ecx\<close> of leaf 0), its
  highest basic leaf, \<open>ecx\<close> of leaf 1, \<open>ebx\<close> and \<open>ecx\<close> of leaf 7 at
  sub-leaf 0, and \<open>ecx\<close> of leaf 13 at sub-leaf 0 (the size in bytes of the
  \<open>xsave\<close> area for every state component the processor supports). Leaf 1 has no
  sub-leaves; leaves 7 and 13 answer zeros at a sub-leaf other than 0.
\<close>

definition cpuid_table :: "u32 \<Rightarrow> u32 \<Rightarrow> u32 \<Rightarrow> u32 \<Rightarrow> u32 \<Rightarrow> u32 \<Rightarrow> cpuid_fn" where
  "cpuid_table vendor maxleaf ecx1 ebx7 ecx7 ecx13 leaf sub =
     (if leaf = 0 then \<lparr>EAX = maxleaf, EBX = 0, ECX = vendor, EDX = 0\<rparr>
      else if leaf = 1 then \<lparr>EAX = 0, EBX = 0, ECX = ecx1, EDX = 0\<rparr>
      else if leaf = 7 \<and> sub = 0 then \<lparr>EAX = 0, EBX = ebx7, ECX = ecx7, EDX = 0\<rparr>
      else if leaf = 13 \<and> sub = 0 then \<lparr>EAX = 0, EBX = 0, ECX = ecx13, EDX = 0\<rparr>
      else \<lparr>EAX = 0, EBX = 0, ECX = 0, EDX = 0\<rparr>)"

text \<open>
  A core entering \<open>cpu_init\<close>: \<open>CR4\<close> holds \<open>PAE\<close> (bit 5), the
  page-attribute table its reset value, the \<open>AC\<close> flag is set, nothing is logged,
  the globals are zero.
\<close>

definition boot_machine :: "cpuid_fn \<Rightarrow> machine" where
  "boot_machine hw =
     \<lparr>cr = (\<lambda>reg. if reg = ''4'' then 0x20 else 0), msr = (\<lambda>i. if i = 0x277 then 0x0007040600070406 else 0),
      xcr = (\<lambda>_. 0), ac_flag = True, cpuid_hw = hw, trace = [],
      cpu_fpu_storage_size = 0, cpu_fpu_save = None, cpu_fpu_restore = None\<rparr>"

text \<open>The three masks of \<open>cpu.h\<close> at the architectural positions of the bits.\<close>

definition arch_cpu_h :: cpu_h where
  "arch_cpu_h =
     \<lparr>CPUID_SMEP = push_bit 7 1, CPUID_SMAP = push_bit 20 1, CPUID_UMIP = push_bit 2 1\<rparr>"

text \<open>
  The processors below, but the last, have a vendor string whose third word is 0, so
  that \<open>cpu_init\<close> reads leaf 7 at sub-leaf 0. The first has no optional feature.
\<close>

definition cpu_baseline :: cpuid_fn where
  "cpu_baseline = cpuid_table 0 13 0 0 0 0"

text \<open>
  \<open>XSAVE\<close> without \<open>AVX\<close> and without \<open>AVX-512\<close>; leaf 7 reports \<open>UMIP\<close>
  (bit 2 of \<open>ecx\<close>); the \<open>xsave\<close> area takes 576 bytes.
\<close>

definition cpu_xsave_umip :: cpuid_fn where
  "cpu_xsave_umip = cpuid_table 0 13 0x04000000 0 0x4 0x240"

text \<open>
  \<open>XSAVE\<close> without \<open>AVX\<close> and without \<open>AVX-512\<close>; leaf 7 reports only bit 9 of
  \<open>ecx\<close>; the \<open>xsave\<close> area takes 576 bytes.
\<close>

definition cpu_xsave_bit9 :: cpuid_fn where
  "cpu_xsave_bit9 = cpuid_table 0 13 0x04000000 0 0x200 0x240"

text \<open>
  \<open>XSAVE\<close> and \<open>AVX-512F\<close> (bit 16 of \<open>ebx\<close> of leaf 7) without \<open>AVX\<close>.
\<close>

definition cpu_xsave_avx512 :: cpuid_fn where
  "cpu_xsave_avx512 = cpuid_table 0 13 0x04000000 0x00010000 0 0xA80"

text \<open>
  \<open>XSAVE\<close> and \<open>AVX\<close> in leaf 1; \<open>SMEP\<close>, \<open>AVX-512F\<close> and \<open>SMAP\<close> in
  \<open>ebx\<close> of leaf 7, \<open>UMIP\<close> in its \<open>ecx\<close>.
\<close>

definition cpu_full :: cpuid_fn where
  "cpu_full = cpuid_table 0 13 0x14000000 0x00110080 0x4 0xA88"

text \<open>
  The same features on a processor whose vendor string is \<open>GenuineIntel\<close>: \<open>ecx\<close>
  of leaf 0 is \<open>0x6C65746E\<close> (\<open>ntel\<close>).
\<close>

definition cpu_full_intel :: cpuid_fn where
  "cpu_full_intel = cpuid_table 0x6C65746E 13 0x14000000 0x00110080 0x4 0xA88"

text \<open>An allocator that hands out consecutive blocks; the heap is the next free address.\<close>

definition bump_alloc :: "u64 \<Rightarrow> u64 \<Rightarrow> u64 \<times> u64" where
  "bump_alloc h n = (h, h + n)"

text \<open>The hand-off list of a machine with two cores.\<close>

definition two_cores :: stivale2_struct_tag_smp where
  "two_cores =
     \<lparr>cpu_count = 2,
      smp_info = [\<lparr>processor_id = 0, lapic_id = 0, target_stack = 0, goto_address = 0\<rparr>,
                  \<lparr>processor_id = 1, lapic_id = 1, target_stack = 0, goto_address = 0\<rparr>]\<rparr>"

text \<open>A resource as \<open>devtmpfs_open\<close> creates it: 4096 bytes allocated, size 0.\<close>

definition fresh_resource :: tmpfs_resource where
  "fresh_resource = \<lparr>st_size = 0, allocated_size = 4096, data = replicate 4096 0\<rparr>"

section \<open>Properties of \<open>cpu_init\<close>\<close>

lemmas prim_defs = read_cr_def write_cr_def rdmsr_def wrmsr_def wrxcr_def clac_def

lemmas cpu_init_defs = cpu_init_def cpu_init_cr0_def cpu_init_cr4_def cpu_init_smep_def
  cpu_init_smap_def cpu_init_umip_def cpu_init_pat_def cpu_init_fpu_def get_cpuid_def
  get_cpuid_max_def bit_XSAVE_def bit_AVX_def bit_AVX512F_def zero_regs_def prim_defs

lemmas example_defs = boot_machine_def cpuid_table_def arch_cpu_h_def
  cpu_baseline_def cpu_xsave_umip_def cpu_xsave_bit9_def cpu_xsave_avx512_def cpu_full_def cpu_full_intel_def

lemmas flag_defs = has_smap_def has_xsave_def has_avx_def has_avx512f_def sees_smap_def
  sees_avx512f_def leaf1_def leaf7_def
  get_cpuid_def get_cpuid_max_def zero_regs_def bit_XSAVE_def bit_AVX_def bit_AVX512F_def

subsection \<open>The feature queries\<close>

lemma get_cpuid_7_again:
  "get_cpuid hw 7 (snd (get_cpuid hw 7 r)) = get_cpuid hw 7 r"
  by (simp add: get_cpuid_def get_cpuid_max_def Let_def)

lemma leaf7_again: "snd (get_cpuid hw 7 (leaf7 hw)) = leaf7 hw"
  by (simp add: leaf7_def get_cpuid_7_again)

lemma get_cpuid_1_after_7: "snd (get_cpuid hw 1 (leaf7 hw)) = leaf1 hw"
  by (simp add: get_cpuid_def Let_def leaf7_def leaf1_def get_cpuid_max_def)

lemma leaf7_flag:
  "(fst (get_cpuid hw 7 r) \<and> EBX (snd (get_cpuid hw 7 r)) AND k \<noteq> 0) = (EBX (leaf7 hw) AND k \<noteq> 0)"
  by (auto simp add: get_cpuid_def get_cpuid_max_def Let_def leaf7_def zero_regs_def)

subsection \<open>What each block leaves alone\<close>

lemma smep_locals: "snd (cpu_init_smep h m r) = snd (get_cpuid (cpuid_hw m) 7 r)"
  by (simp add: cpu_init_smep_def Let_def split: prod.splits)

lemma smap_locals: "snd (cpu_init_smap h m r) = snd (get_cpuid (cpuid_hw m) 7 r)"
  by (simp add: cpu_init_smap_def Let_def split: prod.splits)

lemma umip_locals: "snd (cpu_init_umip h m r) = snd (get_cpuid (cpuid_hw m) 7 r)"
  by (simp add: cpu_init_umip_def Let_def split: prod.splits)

lemma cr0_frame:
  "cpuid_hw (cpu_init_cr0 m) = cpuid_hw m" "msr (cpu_init_cr0 m) = msr m"
  "xcr (cpu_init_cr0 m) = xcr m" "ac_flag (cpu_init_cr0 m) = ac_flag m"
  "cr (cpu_init_cr0 m) ''4'' = cr m ''4''"
  by (simp_all add: cpu_init_cr0_def prim_defs Let_def)

lemma cr4_frame:
  "cpuid_hw (cpu_init_cr4 m) = cpuid_hw m" "msr (cpu_init_cr4 m) = msr m"
  "xcr (cpu_init_cr4 m) = xcr m" "ac_flag (cpu_init_cr4 m) = ac_flag m"
  by (simp_all add: cpu_init_cr4_def prim_defs Let_def)

lemma smep_frame:
  "cpuid_hw (fst (cpu_init_smep h m r)) = cpuid_hw m" "msr (fst (cpu_init_smep h m r)) = msr m"
  "xcr (fst (cpu_init_smep h m r)) = xcr m" "ac_flag (fst (cpu_init_smep h m r)) = ac_flag m"
  by (simp_all add: cpu_init_smep_def prim_defs Let_def split: prod.splits)

lemma smap_frame:
  "cpuid_hw (fst (cpu_init_smap h m r)) = cpuid_hw m" "msr (fst (cpu_init_smap h m r)) = msr m"
  "xcr (fst (cpu_init_smap h m r)) = xcr m"
  by (simp_all add: cpu_init_smap_def prim_defs Let_def split: prod.splits)

lemma umip_frame:
  "cpuid_hw (fst (cpu_init_umip h m r)) = cpuid_hw m" "msr (fst (cpu_init_umip h m r)) = msr m"
  "xcr (fst (cpu_init_umip h m r)) = xcr m" "ac_flag (fst (cpu_init_umip h m r)) = ac_flag m"
  by (simp_all add: cpu_init_umip_def prim_defs Let_def split: prod.splits)

lemma pat_frame:
  "cpuid_hw (cpu_init_pat m) = cpuid_hw m" "cr (cpu_init_pat m) = cr m"
  "xcr (cpu_init_pat m) = xcr m" "ac_flag (cpu_init_pat m) = ac_flag m"
  by (simp_all add: cpu_init_pat_def prim_defs Let_def)

lemma fpu_frame:
  "cpuid_hw (cpu_init_fpu m r) = cpuid_hw m" "msr (cpu_init_fpu m r) = msr m"
  "ac_flag (cpu_init_fpu m r) = ac_flag m"
  by (simp_all add: cpu_init_fpu_def prim_defs Let_def split: prod.splits)

subsection \<open>\<open>cpu_init\<close> as a chain of its blocks\<close>

lemma cpu_init_chain:
  "cpu_init h m = cpu_init_fpu (before_fpu h m) (leaf7 (cpuid_hw m))"
  by (simp add: cpu_init_def before_fpu_def Let_def split_beta smep_locals smap_locals
      umip_locals cr0_frame cr4_frame smep_frame smap_frame umip_frame leaf7_again
      leaf7_def [symmetric])

lemma before_fpu_hw: "cpuid_hw (before_fpu h m) = cpuid_hw m"
  by (simp add: before_fpu_def cr0_frame cr4_frame smep_frame smap_frame umip_frame pat_frame)

lemma before_fpu_msr: "msr (before_fpu h m) = msr (cpu_init_pat m)"
  by (simp add: before_fpu_def cr0_frame cr4_frame smep_frame smap_frame umip_frame
      cpu_init_pat_def prim_defs Let_def)

lemma halves_rejoin:
  "push_bit 32 (ucast (ucast (drop_bit 32 v) :: u32)) OR ucast (ucast v :: u32) = (v :: u64)"
  by (rule bit_word_eqI) (auto simp add: bit_simps)

subsection \<open>The page-attribute table\<close>

lemma cpu_init_pat_value:
  "msr (cpu_init_pat m) 0x277 = (msr m 0x277 AND mask 32) OR push_bit 32 0x105"
  by (simp add: cpu_init_pat_def prim_defs Let_def halves_rejoin mask_eq_exp_minus_1)

lemma pat_low_half: "ucast ((v AND mask 32) OR push_bit 32 k :: u64) = (ucast v :: u32)"
  by (rule bit_word_eqI) (auto simp add: bit_simps)

lemma pat_high_half: "drop_bit 32 ((v AND mask 32) OR push_bit 32 k :: u64) = take_bit 32 k"
  by (rule bit_word_eqI) (auto simp add: bit_simps)

text \<open>
  C4: after the page-attribute-table block of \<open>cpu_init\<close> (and so after
  \<open>cpu_init\<close>, whose other blocks write no model-specific register) the low 32 bits
  of MSR \<open>0x277\<close> are what they were before, and the high 32 bits are \<open>0x00000105\<close>.
\<close>

theorem cpu_init_pat_msr:
  "(ucast (msr (cpu_init_pat m) 0x277) :: u32) = ucast (msr m 0x277) \<and>
   drop_bit 32 (msr (cpu_init_pat m) 0x277) = 0x00000105 \<and>
   (ucast (msr (cpu_init h m) 0x277) :: u32) = ucast (msr m 0x277) \<and>
   drop_bit 32 (msr (cpu_init h m) 0x277) = 0x00000105"
proof -
  have same: "msr (cpu_init h m) = msr (cpu_init_pat m)"
    by (simp add: cpu_init_chain fpu_frame before_fpu_msr)
  have lo: "(ucast (msr (cpu_init_pat m) 0x277) :: u32) = ucast (msr m 0x277)"
    unfolding cpu_init_pat_value by (rule pat_low_half)
  have hi: "drop_bit 32 (msr (cpu_init_pat m) 0x277) = 0x105"
    unfolding cpu_init_pat_value pat_high_half by simp
  from lo hi show ?thesis
    unfolding same by simp
qed

subsection \<open>The save and restore strategy\<close>

lemma fpu_legacy:
  "\<not> has_xsave (cpuid_hw m) \<Longrightarrow>
   cpu_init_fpu m (leaf7 (cpuid_hw m)) =
     m\<lparr>cpu_fpu_storage_size := 512, cpu_fpu_save := Some fxsave,
       cpu_fpu_restore := Some fxrstor\<rparr>"
  using get_cpuid_1_after_7 [of "cpuid_hw m"]
  by (simp add: cpu_init_fpu_def has_xsave_def split_beta)

lemma fpu_xsave:
  "has_xsave (cpuid_hw m) \<Longrightarrow>
   cpu_init_fpu m (leaf7 (cpuid_hw m)) =
     (wrxcr 0 (xcr0_value (cpuid_hw m)) (write_cr ''4'' (cr m ''4'' OR push_bit 18 1) m))
       \<lparr>cpu_fpu_storage_size := ucast (ECX (snd (get_cpuid (cpuid_hw m) 7 (leaf1 (cpuid_hw m))))),
        cpu_fpu_save := Some xsave, cpu_fpu_restore := Some xrstor\<rparr>"
  using get_cpuid_1_after_7 [of "cpuid_hw m"]
    leaf7_flag [of "cpuid_hw m" "leaf1 (cpuid_hw m)" bit_AVX512F]
  apply (simp add: cpu_init_fpu_def has_xsave_def split_beta Let_def xcr0_value_def
      has_avx_def sees_avx512f_def)
  apply (simp add: prim_defs)
  apply (auto simp: Let_def)
  done

text \<open>
  What the \<open>bit_XSAVE\<close> branch stores as the size: \<open>ecx\<close> of the answer to
  the query of leaf 7 at line 169 when the processor has that leaf, \<open>ecx\<close> of leaf
  1 otherwise. Both are words of feature flags; leaf 13, which reports the size of
  the save area, is never queried.
\<close>

lemma cpu_init_xsave_size:
  "has_xsave (cpuid_hw m) \<Longrightarrow>
   cpu_fpu_storage_size (cpu_init h m) =
     ucast (ECX (snd (get_cpuid (cpuid_hw m) 7 (leaf1 (cpuid_hw m))))) \<and>
   cpu_fpu_save (cpu_init h m) = Some xsave \<and>
   cpu_fpu_restore (cpu_init h m) = Some xrstor"
  using fpu_xsave [of "before_fpu h m"]
  by (simp add: cpu_init_chain before_fpu_hw prim_defs Let_def)

text \<open>
  C1: on a processor with \<open>XSAVE\<close> whose leaf 7 reports \<open>UMIP\<close> (\<open>ecx = 4\<close>),
  \<open>cpu_init\<close> stores that word of flags, 4, as \<open>cpu_fpu_storage_size\<close>, and not
  the 576 bytes that leaf 13 reports for the save area. On one whose leaf 7 reports
  only bit 9 of \<open>ecx\<close> it stores 512, the legacy size. (Both processors leave 0 in
  \<open>ecx\<close> after leaf 0, so leaf 7 is read at sub-leaf 0.)
\<close>

theorem cpu_init_xsave_size_is_flag_word:
  "has_xsave cpu_xsave_umip \<and>
   cpu_fpu_storage_size (cpu_init arch_cpu_h (boot_machine cpu_xsave_umip)) = 4 \<and>
   ECX (cpu_xsave_umip 13 0) = 576 \<and>
   has_xsave cpu_xsave_bit9 \<and>
   cpu_fpu_storage_size (cpu_init arch_cpu_h (boot_machine cpu_xsave_bit9)) = 512 \<and>
   ECX (cpu_xsave_bit9 13 0) = 576"
proof -
  have x: "has_xsave cpu_xsave_umip" "has_xsave cpu_xsave_bit9"
    by (simp_all add: flag_defs example_defs)
  have "cpu_fpu_storage_size (cpu_init arch_cpu_h (boot_machine cpu_xsave_umip)) = 4"
    "cpu_fpu_storage_size (cpu_init arch_cpu_h (boot_machine cpu_xsave_bit9)) = 512"
    by (simp_all add: cpu_init_defs example_defs Let_def)
  with x show ?thesis
    by (simp add: example_defs)
qed

text \<open>
  C2 as the claim states it fails: on a processor with \<open>XSAVE\<close> but neither \<open>AVX\<close>
  nor \<open>AVX-512\<close>, \<open>cpu_init\<close> installs \<open>xsave\<close> and \<open>xrstor\<close> and a size
  that is not 512.
\<close>

theorem cpu_init_no_wide_vectors_not_legacy:
  "\<not> has_avx cpu_xsave_umip \<and> \<not> has_avx512f cpu_xsave_umip \<and>
   cpu_fpu_storage_size (cpu_init arch_cpu_h (boot_machine cpu_xsave_umip)) = 4 \<and>
   cpu_fpu_save (cpu_init arch_cpu_h (boot_machine cpu_xsave_umip)) = Some xsave \<and>
   cpu_fpu_restore (cpu_init arch_cpu_h (boot_machine cpu_xsave_umip)) = Some xrstor"
proof -
  have "\<not> has_avx cpu_xsave_umip" "\<not> has_avx512f cpu_xsave_umip"
    by (simp_all add: flag_defs example_defs)
  moreover have
    "cpu_fpu_storage_size (cpu_init arch_cpu_h (boot_machine cpu_xsave_umip)) = 4"
    "cpu_fpu_save (cpu_init arch_cpu_h (boot_machine cpu_xsave_umip)) = Some xsave"
    "cpu_fpu_restore (cpu_init arch_cpu_h (boot_machine cpu_xsave_umip)) = Some xrstor"
    by (simp_all add: cpu_init_defs example_defs Let_def)
  ultimately show ?thesis by simp
qed

text \<open>
  C2, amended: the test \<open>cpu_init\<close> makes is for \<open>bit_XSAVE\<close>. On every processor
  without \<open>XSAVE\<close> it installs the size 512, \<open>fxsave\<close> as \<open>cpu_fpu_save\<close> and
  \<open>fxrstor\<close> as \<open>cpu_fpu_restore\<close>.
\<close>

theorem cpu_init_legacy:
  "\<not> has_xsave (cpuid_hw m) \<Longrightarrow>
   cpu_fpu_storage_size (cpu_init h m) = 512 \<and>
   cpu_fpu_save (cpu_init h m) = Some fxsave \<and>
   cpu_fpu_restore (cpu_init h m) = Some fxrstor"
  using fpu_legacy [of "before_fpu h m"]
  by (simp add: cpu_init_chain before_fpu_hw)

theorem cpu_init_legacy_witness:
  "\<not> has_xsave cpu_baseline \<and>
   cpu_fpu_storage_size (cpu_init arch_cpu_h (boot_machine cpu_baseline)) = 512 \<and>
   cpu_fpu_save (cpu_init arch_cpu_h (boot_machine cpu_baseline)) = Some fxsave \<and>
   cpu_fpu_restore (cpu_init arch_cpu_h (boot_machine cpu_baseline)) = Some fxrstor"
proof -
  have h: "\<not> has_xsave (cpuid_hw (boot_machine cpu_baseline))"
    by (simp add: flag_defs example_defs)
  from cpu_init_legacy [OF h, of arch_cpu_h] h show ?thesis
    by (simp add: boot_machine_def)
qed

subsection \<open>The extended control register\<close>







text \<open>
  The same statement on the processor with the vendor string \<open>GenuineIntel\<close>, which
  has \<open>AVX-512F\<close>: the query of leaf 7 does not see it, and \<open>XCR0\<close> is 7.
\<close>

lemma cpu_init_xcr0_intel:
  "has_xsave cpu_full_intel \<and> has_avx cpu_full_intel \<and> has_avx512f cpu_full_intel \<and>
   \<not> sees_avx512f cpu_full_intel \<and>
   xcr (cpu_init arch_cpu_h (boot_machine cpu_full_intel)) 0 = 7"
proof -
  have "has_xsave cpu_full_intel" "has_avx cpu_full_intel" "has_avx512f cpu_full_intel"
    "\<not> sees_avx512f cpu_full_intel"
    by (simp_all add: flag_defs example_defs)
  moreover have "xcr (cpu_init arch_cpu_h (boot_machine cpu_full_intel)) 0 = 7"
    by (simp add: cpu_init_defs example_defs Let_def)
  ultimately show ?thesis by simp
qed

subsection \<open>Control register 4\<close>

lemma and_subset_trans: "(a::u64) AND b = a \<Longrightarrow> b AND c = b \<Longrightarrow> a AND c = a"
  by (metis and.assoc)

lemma and_or_absorb: "(a::u64) AND (a OR b) = a"
  by (rule bit_word_eqI) (auto simp add: bit_simps)

lemma subset_bit: "(a::u64) AND b = a \<Longrightarrow> bit a n \<Longrightarrow> bit b n"
  by (metis bit_and_iff)

lemma cr4_after_append:
  "cr4_after cur (es @ es') = cr4_after (cr4_after cur es) es'"
  by (induction cur es rule: cr4_after.induct) simp_all

lemma cr4_only_ored_append:
  "cr4_only_ored cur (es @ es') \<longleftrightarrow>
     cr4_only_ored cur es \<and> cr4_only_ored (cr4_after cur es) es'"
  by (induction cur es rule: cr4_only_ored.induct) simp_all

lemma cr4_only_ored_keeps:
  "cr4_only_ored cur es \<Longrightarrow> cur AND cr4_after cur es = cur"
proof (induction cur es rule: cr4_only_ored.induct)
  case (2 cur reg v es)
  then show ?case
    by (cases "reg = ''4''") (auto intro: and_subset_trans)
qed simp_all

lemma cr4_only_ored_written:
  "cr4_only_ored cur es \<Longrightarrow> WriteCR ''4'' v \<in> set es \<Longrightarrow> v AND cr4_after cur es = v"
proof (induction cur es rule: cr4_only_ored.induct)
  case (2 cur reg w es)
  then show ?case
    by (cases "reg = ''4''") (auto dest: cr4_only_ored_keeps)
qed simp_all

lemma cr4_grows_refl: "cr4_grows m m"
  by (simp add: cr4_grows_def)

lemma cr4_grows_trans: "cr4_grows m m' \<Longrightarrow> cr4_grows m' m'' \<Longrightarrow> cr4_grows m m''"
  unfolding cr4_grows_def
  apply (elim exE conjE)
  subgoal for evs evs'
    apply (rule exI [of _ "evs @ evs'"])
    apply (simp add: cr4_after_append cr4_only_ored_append)
    done
  done

lemma one_write_grows: "cr4_grows m (write_cr ''4'' (cr m ''4'' OR k) m)"
  by (simp add: cr4_grows_def prim_defs and_or_absorb)

lemma clac_grows: "cr4_grows m (clac m)"
  by (simp add: cr4_grows_def prim_defs)

lemma cr0_grows: "cr4_grows m (cpu_init_cr0 m)"
  by (simp add: cr4_grows_def cpu_init_cr0_def prim_defs Let_def)

lemma cr4_block_grows: "cr4_grows m (cpu_init_cr4 m)"
proof -
  let ?m1 = "write_cr ''4'' (cr m ''4'' OR push_bit 9 3) m"
  have "cpu_init_cr4 m = write_cr ''4'' (cr ?m1 ''4'' OR push_bit 2 1) ?m1"
    by (simp add: cpu_init_cr4_def prim_defs Let_def)
  then show ?thesis
    using cr4_grows_trans [OF one_write_grows one_write_grows] by metis
qed

lemma smep_grows: "cr4_grows m (fst (cpu_init_smep h m r))"
  using one_write_grows [of m "push_bit 20 1"]
  by (simp add: cpu_init_smep_def Let_def read_cr_def cr4_grows_refl split: prod.splits)

lemma smap_grows: "cr4_grows m (fst (cpu_init_smap h m r))"
  using cr4_grows_trans [OF one_write_grows [of m "push_bit 21 1"] clac_grows]
  by (simp add: cpu_init_smap_def Let_def read_cr_def cr4_grows_refl split: prod.splits)

lemma umip_grows: "cr4_grows m (fst (cpu_init_umip h m r))"
  using one_write_grows [of m "push_bit 11 1"]
  by (simp add: cpu_init_umip_def Let_def read_cr_def cr4_grows_refl split: prod.splits)

lemma pat_grows: "cr4_grows m (cpu_init_pat m)"
  by (simp add: cr4_grows_def cpu_init_pat_def prim_defs Let_def)

lemma fpu_grows: "cr4_grows m (cpu_init_fpu m r)"
proof -
  have a: "cr4_grows m' (wrxcr i v m')" for m' i v
    by (simp add: cr4_grows_def prim_defs Let_def)
  have b: "cr4_grows m' (m'\<lparr>cpu_fpu_storage_size := s, cpu_fpu_save := f,
      cpu_fpu_restore := g\<rparr>)" for m' s f g
    by (simp add: cr4_grows_def)
  have c: "cr4_grows m ((wrxcr i v (write_cr ''4'' (cr m ''4'' OR k) m))
      \<lparr>cpu_fpu_storage_size := s, cpu_fpu_save := f, cpu_fpu_restore := g\<rparr>)" for i v s f g k
    by (rule cr4_grows_trans [OF cr4_grows_trans [OF one_write_grows a] b])
  show ?thesis
    by (simp add: cpu_init_fpu_def Let_def read_cr_def split_beta b c)
qed

lemma cpu_init_grows: "cr4_grows m (cpu_init h m)"
proof -
  let ?r = "leaf7 (cpuid_hw m)"
  let ?m1 = "cpu_init_cr0 m"
  let ?m2 = "cpu_init_cr4 ?m1"
  let ?m3 = "fst (cpu_init_smep h ?m2 zero_regs)"
  let ?m4 = "fst (cpu_init_smap h ?m3 ?r)"
  let ?m5 = "fst (cpu_init_umip h ?m4 ?r)"
  let ?m6 = "cpu_init_pat ?m5"
  note step = cr4_grows_trans
  have "cr4_grows m ?m2"
    by (rule step [OF cr0_grows cr4_block_grows])
  then have "cr4_grows m ?m4"
    by (rule step [OF step [OF _ smep_grows] smap_grows])
  then have "cr4_grows m ?m6"
    by (rule step [OF step [OF _ umip_grows] pat_grows])
  then have "cr4_grows m (cpu_init_fpu ?m6 ?r)"
    by (rule step [OF _ fpu_grows])
  then show ?thesis
    by (simp add: cpu_init_chain before_fpu_def)
qed

lemma cpu_init_cr4_log:
  "cr4_only_ored (cr m ''4'') (cpu_init_events h m) \<and>
   cr (cpu_init h m) ''4'' = cr4_after (cr m ''4'') (cpu_init_events h m)"
  using cpu_init_grows [of m h]
  by (auto simp add: cr4_grows_def cpu_init_events_def)

lemma cr4_block:
  "trace (cpu_init_cr4 m) =
     trace m @ [WriteCR ''4'' (cr m ''4'' OR 0x600), WriteCR ''4'' (cr m ''4'' OR 0x604)]"
  "cr (cpu_init_cr4 m) ''4'' = cr m ''4'' OR 0x604"
  by (simp_all add: cpu_init_cr4_def prim_defs Let_def or.assoc)

lemma smep_cr4:
  "cr (fst (cpu_init_smep h m r)) ''4'' = cr m ''4'' \<or>
   cr (fst (cpu_init_smep h m r)) ''4'' = cr m ''4'' OR push_bit 20 1"
  by (simp add: cpu_init_smep_def prim_defs Let_def split: prod.splits)

lemma smap_cr4:
  "cr (fst (cpu_init_smap h m r)) ''4'' = cr m ''4'' \<or>
   cr (fst (cpu_init_smap h m r)) ''4'' = cr m ''4'' OR push_bit 21 1"
  by (simp add: cpu_init_smap_def prim_defs Let_def split: prod.splits)

lemma umip_cr4:
  "cr (fst (cpu_init_umip h m r)) ''4'' = cr m ''4'' \<or>
   cr (fst (cpu_init_umip h m r)) ''4'' = cr m ''4'' OR push_bit 11 1"
  by (simp add: cpu_init_umip_def prim_defs Let_def split: prod.splits)

lemma fpu_cr4:
  "cr (cpu_init_fpu m r) ''4'' = cr m ''4'' \<or>
   cr (cpu_init_fpu m r) ''4'' = cr m ''4'' OR push_bit 18 1"
  by (simp add: cpu_init_fpu_def prim_defs Let_def split: prod.splits)

lemma cpu_init_bit7: "bit (cr (cpu_init h m) ''4'') 7 = bit (cr m ''4'') 7"
proof -
  let ?m2 = "cpu_init_cr4 (cpu_init_cr0 m)"
  let ?m3 = "fst (cpu_init_smep h ?m2 zero_regs)"
  let ?m4 = "fst (cpu_init_smap h ?m3 (leaf7 (cpuid_hw m)))"
  let ?m5 = "fst (cpu_init_umip h ?m4 (leaf7 (cpuid_hw m)))"
  have 2: "bit (cr ?m2 ''4'') 7 = bit (cr m ''4'') 7"
    by (simp add: cr4_block cr0_frame bit_simps)
  have 3: "bit (cr ?m3 ''4'') 7 = bit (cr ?m2 ''4'') 7"
    using smep_cr4 [of h ?m2 zero_regs] by (auto simp add: bit_simps)
  have 4: "bit (cr ?m4 ''4'') 7 = bit (cr ?m3 ''4'') 7"
    using smap_cr4 [of h ?m3 "leaf7 (cpuid_hw m)"] by (auto simp add: bit_simps)
  have 5: "bit (cr ?m5 ''4'') 7 = bit (cr ?m4 ''4'') 7"
    using umip_cr4 [of h ?m4 "leaf7 (cpuid_hw m)"] by (auto simp add: bit_simps)
  have 6: "bit (cr (cpu_init h m) ''4'') 7 = bit (cr ?m5 ''4'') 7"
    using fpu_cr4 [of "before_fpu h m" "leaf7 (cpuid_hw m)"]
    by (auto simp add: cpu_init_chain before_fpu_def pat_frame bit_simps)
  from 2 3 4 5 6 show ?thesis by simp
qed

text \<open>
  C7 as the claim states it fails: from \<open>CR4 = 0x20\<close> the block of lines 112 to
  120 writes \<open>CR4\<close> twice (first with bits 9 and 10, then with bit 2 as well), and
  the global-page bit 7 is clear after the block and after the whole of \<open>cpu_init\<close>.
\<close>

theorem cpu_init_cr4_not_one_update:
  "trace (cpu_init_cr4 (boot_machine cpu_baseline)) = [WriteCR ''4'' 0x620, WriteCR ''4'' 0x624] \<and>
   \<not> bit (cr (cpu_init_cr4 (boot_machine cpu_baseline)) ''4'') 7 \<and>
   \<not> bit (cr (cpu_init arch_cpu_h (boot_machine cpu_baseline)) ''4'') 7"
  by (simp add: cpu_init_defs example_defs Let_def)

text \<open>
  C7, amended: the block makes two updates of \<open>CR4\<close>, each a read-modify-write: the
  first sets bits 9 and 10 (\<open>3 << 9\<close>), the second sets bit 2 (\<open>1 << 2\<close>).
  Neither the block nor any other part of \<open>cpu_init\<close> changes the global-page bit 7.
\<close>

theorem cpu_init_cr4_two_updates:
  "trace (cpu_init_cr4 m) =
     trace m @ [WriteCR ''4'' (cr m ''4'' OR 0x600), WriteCR ''4'' (cr m ''4'' OR 0x604)] \<and>
   cr (cpu_init_cr4 m) ''4'' = cr m ''4'' OR 0x604 \<and>
   bit (cr (cpu_init_cr4 m) ''4'') 7 = bit (cr m ''4'') 7 \<and>
   bit (cr (cpu_init h m) ''4'') 7 = bit (cr m ''4'') 7"
  by (simp add: cr4_block cpu_init_bit7 bit_simps)

text \<open>
  C9: every update \<open>cpu_init\<close> makes to \<open>CR4\<close> only adds bits: in the log of the
  run, each value \<open>v\<close> written to \<open>CR4\<close> keeps every bit of the value \<open>old\<close>
  that \<open>CR4\<close> held just before that write (\<open>old AND v = old\<close>, starting from
  \<open>CR4\<close> at entry), and \<open>CR4\<close> at return is the last value written. So every bit
  that is set at entry, and every bit of every value written on the way, is set in
  \<open>CR4\<close> when \<open>cpu_init\<close> returns.
\<close>

theorem cpu_init_cr4_monotone:
  "cr4_only_ored (cr m ''4'') (cpu_init_events h m) \<and>
   cr (cpu_init h m) ''4'' = cr4_after (cr m ''4'') (cpu_init_events h m) \<and>
   (bit (cr m ''4'') n \<longrightarrow> bit (cr (cpu_init h m) ''4'') n) \<and>
   (WriteCR ''4'' v \<in> set (cpu_init_events h m) \<longrightarrow> bit v n \<longrightarrow>
      bit (cr (cpu_init h m) ''4'') n)"
proof -
  note log = cpu_init_cr4_log [of m h]
  from log have keeps: "cr m ''4'' AND cr (cpu_init h m) ''4'' = cr m ''4''"
    using cr4_only_ored_keeps [of "cr m ''4''" "cpu_init_events h m"] by simp
  have written: "v AND cr (cpu_init h m) ''4'' = v"
    if "WriteCR ''4'' v \<in> set (cpu_init_events h m)"
    using log that cr4_only_ored_written [of "cr m ''4''" "cpu_init_events h m" v] by simp
  from log keeps written show ?thesis
    by (auto dest: subset_bit)
qed

theorem cpu_init_cr4_monotone_witness:
  "cpu_init_events arch_cpu_h (boot_machine cpu_full) =
     [WriteCR ''0'' 0x2, WriteCR ''4'' 0x620, WriteCR ''4'' 0x624, WriteCR ''4'' 0x100624,
      WriteCR ''4'' 0x300624, Clac, WriteCR ''4'' 0x300E24, Wrmsr 0x277 0x105 0x00070406,
      WriteCR ''4'' 0x340E24, Xsetbv 0 0 0xE7] \<and>
   cr4_only_ored 0x20 (cpu_init_events arch_cpu_h (boot_machine cpu_full)) \<and>
   cr (cpu_init arch_cpu_h (boot_machine cpu_full)) ''4'' = 0x340E24 \<and>
   bit (cr (boot_machine cpu_full) ''4'') 5 \<and>
   bit (cr (cpu_init arch_cpu_h (boot_machine cpu_full)) ''4'') 5 \<and>
   WriteCR ''4'' 0x620 \<in> set (cpu_init_events arch_cpu_h (boot_machine cpu_full)) \<and>
   bit (0x620 :: u64) 9 \<and>
   bit (cr (cpu_init arch_cpu_h (boot_machine cpu_full)) ''4'') 9"
proof -
  have e: "cpu_init_events arch_cpu_h (boot_machine cpu_full) =
     [WriteCR ''0'' 0x2, WriteCR ''4'' 0x620, WriteCR ''4'' 0x624, WriteCR ''4'' 0x100624,
      WriteCR ''4'' 0x300624, Clac, WriteCR ''4'' 0x300E24, Wrmsr 0x277 0x105 0x00070406,
      WriteCR ''4'' 0x340E24, Xsetbv 0 0 0xE7]"
    by (simp add: cpu_init_events_def cpu_init_defs example_defs Let_def)
  have a: "cr (boot_machine cpu_full) ''4'' = 0x20"
    by (simp add: boot_machine_def)
  have a5: "bit (cr (boot_machine cpu_full) ''4'') 5"
    by (simp add: boot_machine_def)
  have b: "WriteCR ''4'' 0x620 \<in> set (cpu_init_events arch_cpu_h (boot_machine cpu_full))"
    by (simp add: e)
  have c: "bit (0x620 :: u64) 9"
    by simp
  note t5 = cpu_init_cr4_monotone [of "boot_machine cpu_full" arch_cpu_h 5 "0x620"]
  note t9 = cpu_init_cr4_monotone [of "boot_machine cpu_full" arch_cpu_h 9 "0x620"]
  from t5 have o: "cr4_only_ored 0x20 (cpu_init_events arch_cpu_h (boot_machine cpu_full))"
    unfolding a by (rule conjunct1)
  from t5 have "cr (cpu_init arch_cpu_h (boot_machine cpu_full)) ''4'' =
      cr4_after 0x20 (cpu_init_events arch_cpu_h (boot_machine cpu_full))"
    unfolding a by (rule conjunct1 [OF conjunct2])
  also have "\<dots> = 0x340E24"
    unfolding e by simp
  finally have f: "cr (cpu_init arch_cpu_h (boot_machine cpu_full)) ''4'' = 0x340E24" .
  from t5 a5 have b5: "bit (cr (cpu_init arch_cpu_h (boot_machine cpu_full)) ''4'') 5"
    by blast
  from t9 b c have b9: "bit (cr (cpu_init arch_cpu_h (boot_machine cpu_full)) ''4'') 9"
    by blast
  show ?thesis
    by (intro conjI e o f a5 b5 b c b9)
qed

subsection \<open>Supervisor-mode access prevention\<close>

lemma smap_step:
  "sees_smap h (cpuid_hw m) \<Longrightarrow>
   fst (cpu_init_smap h m r) = clac (write_cr ''4'' (cr m ''4'' OR push_bit 21 1) m)"
  using leaf7_flag [of "cpuid_hw m" r "CPUID_SMAP h"]
  by (auto simp add: cpu_init_smap_def sees_smap_def split_beta Let_def prim_defs)

lemma smap_skip:
  "\<not> sees_smap h (cpuid_hw m) \<Longrightarrow> fst (cpu_init_smap h m r) = m"
  using leaf7_flag [of "cpuid_hw m" r "CPUID_SMAP h"]
  by (auto simp add: cpu_init_smap_def sees_smap_def split_beta Let_def)

lemma grows_trace: "cr4_grows m m' \<Longrightarrow> \<exists>evs. trace m' = trace m @ evs"
  by (auto simp add: cr4_grows_def)

lemma bit21: "bit (v OR push_bit 21 1 :: u64) 21"
  by (simp add: bit_simps)

lemma write_then_clac:
  "trace (clac (write_cr reg x m)) = trace m @ [WriteCR reg x, Clac]"
  "cr (clac (write_cr reg x m)) reg = x"
  "ac_flag (clac m') = False"
  by (simp_all add: prim_defs)

text \<open>
  When the query of leaf 7 that \<open>cpu_init\<close> makes reports \<open>CPUID_SMAP\<close>, the block
  of lines 132 to 139 executes the write of \<open>CR4\<close> with bit 21 set and \<open>clac\<close>
  directly after it and nothing else, so the \<open>AC\<close> flag is clear after the block;
  the two instructions are adjacent in the log of the whole of \<open>cpu_init\<close>, and the
  flag is still clear when it returns.
\<close>

lemma smap_seen_then_clac:
  assumes "sees_smap h (cpuid_hw m)"
  shows "trace (fst (cpu_init_smap h m r)) =
           trace m @ [WriteCR ''4'' (cr m ''4'' OR push_bit 21 1), Clac] \<and>
         bit (cr (fst (cpu_init_smap h m r)) ''4'') 21 \<and>
         \<not> ac_flag (fst (cpu_init_smap h m r)) \<and>
         (\<exists>pre post v. cpu_init_events h m = pre @ [WriteCR ''4'' v, Clac] @ post \<and> bit v 21) \<and>
         \<not> ac_flag (cpu_init h m)"
proof -
  let ?r = "leaf7 (cpuid_hw m)"
  let ?m3 = "fst (cpu_init_smep h (cpu_init_cr4 (cpu_init_cr0 m)) zero_regs)"
  let ?m4 = "fst (cpu_init_smap h ?m3 ?r)"
  let ?m6 = "cpu_init_pat (fst (cpu_init_umip h ?m4 ?r))"
  let ?v = "cr ?m3 ''4'' OR push_bit 21 1"
  have hw3: "cpuid_hw ?m3 = cpuid_hw m"
    by (simp add: cr0_frame cr4_frame smep_frame)
  have step: "fst (cpu_init_smap h m' r') = clac (write_cr ''4'' (cr m' ''4'' OR push_bit 21 1) m')"
    if "cpuid_hw m' = cpuid_hw m" for m' r'
    using assms that smap_step [of h m' r'] by simp
  have local: "trace (fst (cpu_init_smap h m r)) =
           trace m @ [WriteCR ''4'' (cr m ''4'' OR push_bit 21 1), Clac]"
    "bit (cr (fst (cpu_init_smap h m r)) ''4'') 21"
    "\<not> ac_flag (fst (cpu_init_smap h m r))"
    by (simp_all only: step [OF refl] write_then_clac bit21 not_False_eq_True)
  have "cr4_grows m ?m3"
    by (rule cr4_grows_trans [OF cr4_grows_trans [OF cr0_grows cr4_block_grows] smep_grows])
  then obtain pre where pre: "trace ?m3 = trace m @ pre"
    using grows_trace by blast
  have t4: "trace ?m4 = trace ?m3 @ [WriteCR ''4'' ?v, Clac]"
    by (simp only: step [OF hw3] write_then_clac)
  have "cr4_grows ?m4 (cpu_init_fpu ?m6 ?r)"
    by (rule cr4_grows_trans [OF cr4_grows_trans [OF umip_grows pat_grows] fpu_grows])
  then obtain post where post: "trace (cpu_init h m) = trace ?m4 @ post"
    using grows_trace unfolding cpu_init_chain before_fpu_def by blast
  have ev: "cpu_init_events h m = pre @ [WriteCR ''4'' ?v, Clac] @ post"
    by (simp add: cpu_init_events_def post t4 pre)
  have "\<not> ac_flag ?m4"
    by (simp only: step [OF hw3] write_then_clac not_False_eq_True)
  then have ac: "\<not> ac_flag (cpu_init h m)"
    by (simp add: cpu_init_chain before_fpu_def fpu_frame pat_frame umip_frame)
  from ev bit21 have "\<exists>pre post v. cpu_init_events h m = pre @ [WriteCR ''4'' v, Clac] @ post \<and> bit v 21"
    by blast
  with local ac show ?thesis by simp
qed

text \<open>
  When that query does not report \<open>CPUID_SMAP\<close>, \<open>cpu_init\<close> leaves the \<open>AC\<close>
  flag as it found it.
\<close>

lemma smap_unseen_ac_kept:
  assumes "\<not> sees_smap h (cpuid_hw m)"
  shows "ac_flag (cpu_init h m) = ac_flag m"
proof -
  let ?m3 = "fst (cpu_init_smep h (cpu_init_cr4 (cpu_init_cr0 m)) zero_regs)"
  have hw3: "cpuid_hw ?m3 = cpuid_hw m"
    by (simp add: cr0_frame cr4_frame smep_frame)
  have "fst (cpu_init_smap h ?m3 (leaf7 (cpuid_hw m))) = ?m3"
    using assms hw3 by (simp add: smap_skip)
  then show ?thesis
    by (simp add: cpu_init_chain before_fpu_def fpu_frame pat_frame umip_frame smep_frame
        cr4_frame cr0_frame)
qed

text \<open>
  C5: the processor with the vendor string \<open>GenuineIntel\<close> has \<open>SMAP\<close> (bit 20 of
  \<open>ebx\<close> of leaf 7, sub-leaf 0), and \<open>cpu_init\<close> starts with the \<open>AC\<close> flag
  set. The query of line 132 reads leaf 7 at the sub-leaf left in \<open>ecx\<close>, not at
  sub-leaf 0, and sees no flag: \<open>cpu_init\<close> writes no \<open>CR4\<close> value with bit 21,
  executes no \<open>clac\<close>, and returns with the \<open>AC\<close> flag still set.
\<close>

theorem cpu_init_smap_not_enabled:
  "has_smap arch_cpu_h cpu_full_intel \<and>
   ac_flag (boot_machine cpu_full_intel) \<and>
   cpu_init_events arch_cpu_h (boot_machine cpu_full_intel) =
     [WriteCR ''0'' 0x2, WriteCR ''4'' 0x620, WriteCR ''4'' 0x624,
      Wrmsr 0x277 0x105 0x00070406, WriteCR ''4'' 0x40624, Xsetbv 0 0 0x7] \<and>
   \<not> bit (cr (cpu_init arch_cpu_h (boot_machine cpu_full_intel)) ''4'') 21 \<and>
   ac_flag (cpu_init arch_cpu_h (boot_machine cpu_full_intel))"
proof -
  have "has_smap arch_cpu_h cpu_full_intel"
    by (simp add: flag_defs example_defs)
  moreover have "ac_flag (boot_machine cpu_full_intel)"
    by (simp add: boot_machine_def)
  moreover have "cpu_init_events arch_cpu_h (boot_machine cpu_full_intel) =
     [WriteCR ''0'' 0x2, WriteCR ''4'' 0x620, WriteCR ''4'' 0x624,
      Wrmsr 0x277 0x105 0x00070406, WriteCR ''4'' 0x40624, Xsetbv 0 0 0x7]"
    by (simp add: cpu_init_events_def cpu_init_defs example_defs Let_def)
  moreover have "cr (cpu_init arch_cpu_h (boot_machine cpu_full_intel)) ''4'' = 0x40624"
    "ac_flag (cpu_init arch_cpu_h (boot_machine cpu_full_intel))"
    by (simp_all add: cpu_init_defs example_defs Let_def)
  ultimately show ?thesis
    by simp
qed

section \<open>Properties of \<open>smp_init\<close>\<close>

text \<open>
  What the loop does for a well-formed hand-off list, from index \<open>i\<close>: one
  allocation of 32768 bytes for each remaining entry, in order, and each of those
  entries gets the base of its allocation plus \<open>sizeof(stack)\<close> as stack pointer
  and the trampoline as entry address; the entries before \<open>i\<close> are not touched.
\<close>

lemma smp_init_loop_result:
  "unat (cpu_count tag) = length (smp_info tag) \<Longrightarrow> i \<le> length (smp_info tag) \<Longrightarrow>
   \<exists>tag' h' bases.
     smp_init_loop alloc cs tag h log i = Some (tag', h', log @ map (Alloc 32768) bases) \<and>
     length bases = length (smp_info tag) - i \<and>
     cpu_count tag' = cpu_count tag \<and>
     length (smp_info tag') = length (smp_info tag) \<and>
     (\<forall>j < length (smp_info tag).
        smp_info tag' ! j =
          (if j < i then smp_info tag ! j
           else (smp_info tag ! j)\<lparr>target_stack := bases ! (j - i) + sizeof_stack,
                                    goto_address := cs\<rparr>))"
proof (induction alloc cs tag h log i rule: smp_init_loop.induct)
  case (1 alloc cs tag h log i)
  show ?case
  proof (cases "i < length (smp_info tag)")
    case False
    with "1.prems" have "smp_init_loop alloc cs tag h log i = Some (tag, h, log)"
      by simp
    with False "1.prems" show ?thesis
      by auto
  next
    case True
    obtain stack h1 where a: "alloc h 32768 = (stack, h1)"
      by (cases "alloc h 32768")
    define info where
      "info = (smp_info tag ! i)\<lparr>target_stack := stack + sizeof_stack, goto_address := cs\<rparr>"
    define tag1 where "tag1 = tag\<lparr>smp_info := (smp_info tag)[i := info]\<rparr>"
    have unfold: "smp_init_loop alloc cs tag h log i =
        smp_init_loop alloc cs tag1 h1 (log @ [Alloc 32768 stack]) (i + 1)"
      using True "1.prems" a by (simp add: tag1_def info_def Let_def)
    have wf1: "unat (cpu_count tag1) = length (smp_info tag1)" "i + 1 \<le> length (smp_info tag1)"
      using True "1.prems" by (simp_all add: tag1_def)
    have "\<exists>tag' h' bases.
       smp_init_loop alloc cs tag1 h1 (log @ [Alloc 32768 stack]) (i + 1) =
         Some (tag', h', (log @ [Alloc 32768 stack]) @ map (Alloc 32768) bases) \<and>
       length bases = length (smp_info tag1) - (i + 1) \<and>
       cpu_count tag' = cpu_count tag1 \<and>
       length (smp_info tag') = length (smp_info tag1) \<and>
       (\<forall>j < length (smp_info tag1).
          smp_info tag' ! j =
            (if j < i + 1 then smp_info tag1 ! j
             else (smp_info tag1 ! j)\<lparr>target_stack := bases ! (j - (i + 1)) + sizeof_stack,
                                       goto_address := cs\<rparr>))"
      using True "1.prems"
      by (intro "1.IH" [OF _ _ a [symmetric] refl refl refl] wf1)
         (simp_all add: tag1_def info_def)
    then obtain tag' h' bases where
      r: "smp_init_loop alloc cs tag1 h1 (log @ [Alloc 32768 stack]) (i + 1) =
            Some (tag', h', (log @ [Alloc 32768 stack]) @ map (Alloc 32768) bases)"
      and l: "length bases = length (smp_info tag1) - (i + 1)"
      and c: "cpu_count tag' = cpu_count tag1" "length (smp_info tag') = length (smp_info tag1)"
      and e: "\<forall>j < length (smp_info tag1).
          smp_info tag' ! j =
            (if j < i + 1 then smp_info tag1 ! j
             else (smp_info tag1 ! j)\<lparr>target_stack := bases ! (j - (i + 1)) + sizeof_stack,
                                       goto_address := cs\<rparr>)"
      by blast
    have "smp_init_loop alloc cs tag h log i =
        Some (tag', h', log @ map (Alloc 32768) (stack # bases))"
      using unfold r by simp
    moreover have "length (stack # bases) = length (smp_info tag) - i"
      using l True by (simp add: tag1_def)
    moreover have "cpu_count tag' = cpu_count tag" "length (smp_info tag') = length (smp_info tag)"
      using c by (simp_all add: tag1_def)
    moreover have "\<forall>j < length (smp_info tag).
        smp_info tag' ! j =
          (if j < i then smp_info tag ! j
           else (smp_info tag ! j)\<lparr>target_stack := (stack # bases) ! (j - i) + sizeof_stack,
                                    goto_address := cs\<rparr>)"
    proof (intro allI impI)
      fix j assume j: "j < length (smp_info tag)"
      then have ej: "smp_info tag' ! j =
            (if j < i + 1 then smp_info tag1 ! j
             else (smp_info tag1 ! j)\<lparr>target_stack := bases ! (j - (i + 1)) + sizeof_stack,
                                       goto_address := cs\<rparr>)"
        using e by (simp add: tag1_def)
      consider "j < i" | "j = i" | "i < j" by linarith
      then show "smp_info tag' ! j =
          (if j < i then smp_info tag ! j
           else (smp_info tag ! j)\<lparr>target_stack := (stack # bases) ! (j - i) + sizeof_stack,
                                    goto_address := cs\<rparr>)"
      proof cases
        case 1
        then show ?thesis using ej j by (simp add: tag1_def)
      next
        case 2
        then show ?thesis using ej j by (simp add: tag1_def info_def)
      next
        case 3
        then have "(stack # bases) ! (j - i) = bases ! (j - (i + 1))"
          by (simp add: nth_Cons')
        with 3 show ?thesis using ej j by (simp add: tag1_def)
      qed
    qed
    ultimately show ?thesis
      by blast
  qed
qed


text \<open>
  \<open>smp_init\<close> on a list of \<open>N\<close> cores: exactly \<open>N\<close> allocations of 32768
  bytes, between the two console lines and the delay; descriptor \<open>j\<close> gets the base
  of allocation \<open>j\<close> plus 8 and the address of the trampoline.
\<close>

lemma smp_init_descriptors:
  assumes "unat (cpu_count tag) = length (smp_info tag)" and "smp_info tag \<noteq> []"
  shows "\<exists>tag' h' bases.
     smp_init alloc cs tag h =
       Some (tag', h',
         [Printf ''CPU: Total processor count: %d'' (cpu_count tag),
          Printf ''CPU: Processor %d online!'' (ucast (lapic_id (hd (smp_info tag))))] @
         map (Alloc 32768) bases @ [Usleep 50000]) \<and>
     length bases = unat (cpu_count tag) \<and>
     length (smp_info tag') = length (smp_info tag) \<and>
     (\<forall>j < length (smp_info tag).
        smp_info tag' ! j =
          (smp_info tag ! j)\<lparr>target_stack := bases ! j + sizeof_stack, goto_address := cs\<rparr>)"
proof -
  let ?log = "[Printf ''CPU: Total processor count: %d'' (cpu_count tag),
          Printf ''CPU: Processor %d online!'' (ucast (lapic_id (hd (smp_info tag))))]"
  from smp_init_loop_result [OF assms(1), of 0 alloc cs h ?log]
  obtain tag' h' bases where
    r: "smp_init_loop alloc cs tag h ?log 0 = Some (tag', h', ?log @ map (Alloc 32768) bases)"
    and l: "length bases = length (smp_info tag)" "length (smp_info tag') = length (smp_info tag)"
    and e: "\<forall>j < length (smp_info tag).
        smp_info tag' ! j =
          (smp_info tag ! j)\<lparr>target_stack := bases ! j + sizeof_stack, goto_address := cs\<rparr>"
    by auto
  have "smp_init alloc cs tag h = Some (tag', h', ?log @ map (Alloc 32768) bases @ [Usleep 50000])"
    using assms(2) r by (cases "smp_info tag") (simp_all add: smp_init_def)
  with l e assms(1) show ?thesis
    by auto
qed


text \<open>
  C3: for two cores and an allocator that returns the bases \<open>0x200000\<close> and
  \<open>0x208000\<close>, \<open>smp_init\<close> makes two allocations of 32768 bytes and sets every
  entry address to the trampoline, but the entry stack pointers are the bases plus 8
  (\<open>0x200008\<close>, \<open>0x208008\<close>), not the bases plus 32768.
\<close>

theorem smp_init_stack_pointer:
  "smp_init bump_alloc 0xFFFFFFFF80001000 two_cores 0x200000 =
     Some (\<lparr>cpu_count = 2,
            smp_info = [\<lparr>processor_id = 0, lapic_id = 0, target_stack = 0x200008,
                          goto_address = 0xFFFFFFFF80001000\<rparr>,
                        \<lparr>processor_id = 1, lapic_id = 1, target_stack = 0x208008,
                          goto_address = 0xFFFFFFFF80001000\<rparr>]\<rparr>,
           0x210000,
           [Printf ''CPU: Total processor count: %d'' 2,
            Printf ''CPU: Processor %d online!'' 0,
            Alloc 32768 0x200000, Alloc 32768 0x208000, Usleep 50000])"
  by (simp add: smp_init_def two_cores_def bump_alloc_def sizeof_stack_def Let_def)

section \<open>Properties of \<open>devtmpfs_write\<close>\<close>

lemma grow_zero_aux:
  "grow_loop off count a = Some y \<Longrightarrow> \<not> (a = 0 \<and> off + count \<noteq> 0)"
  apply (rule grow_loop.raw_induct [where P = "\<lambda>off count a y. \<not> (a = 0 \<and> off + count \<noteq> 0)"])
   apply (auto split: if_splits simp: word_gt_0)
  done

lemma grow_zero: "off + count \<noteq> 0 \<Longrightarrow> grow_loop off count 0 = None"
  using grow_zero_aux [of off count 0] by (cases "grow_loop off count 0") auto

lemma grow_step:
  "allocated < off + count \<Longrightarrow> allocated \<noteq> 0 \<Longrightarrow>
   grow_loop off count allocated = grow_loop off count (allocated * 2)"
  by (subst grow_loop.simps) simp

lemma two_64: "(0x10000000000000000 :: u64) = 0"
  by simp

lemma grow_hangs: "grow_loop 0 0x8000000000000001 4096 = None"
  by (simp add: grow_step grow_zero two_64)

lemma grow_done: "\<not> allocated < off + count \<Longrightarrow> grow_loop off count allocated = Some allocated"
  by (subst grow_loop.simps) simp

lemma grow_loop_fits:
  assumes "unat off + unat count \<le> 2 ^ 63"
  shows "0 < a \<Longrightarrow> \<exists>a'. grow_loop off count a = Some a' \<and> off + count \<le> a' \<and> a \<le> a'"
proof (induction "unat (off + count) - unat a" arbitrary: a rule: less_induct)
  case less
  have need: "unat (off + count) \<le> 2 ^ 63"
    using assms by (simp add: unat_word_ariths)
  show ?case
  proof (cases "a < off + count")
    case False
    then show ?thesis
      by (simp add: grow_done)
  next
    case True
    then have small: "unat a < 2 ^ 63"
      using need by (simp add: word_less_nat_alt)
    then have dbl: "unat (a * 2) = 2 * unat a"
      by (simp add: unat_word_ariths)
    have pos: "0 < unat a"
      using less.prems by (simp add: word_less_nat_alt)
    have "0 < a * 2"
      using dbl pos by (simp add: word_less_nat_alt)
    moreover have "unat (off + count) - unat (a * 2) < unat (off + count) - unat a"
      using True dbl pos by (simp add: word_less_nat_alt)
    ultimately obtain a' where a': "grow_loop off count (a * 2) = Some a'" "off + count \<le> a'" "a * 2 \<le> a'"
      using less.hyps by blast
    have "a \<le> a * 2"
      using dbl by (simp add: word_le_nat_alt)
    with a' have "a \<le> a'"
      by simp
    moreover have "grow_loop off count a = Some a'"
      using True less.prems a'(1) by (simp add: grow_step word_gt_0)
    ultimately show ?thesis
      using a'(2) by simp
  qed
qed


text \<open>
  Without wrap-around the write fits: when \<open>allocated_size\<close> is positive, the
  buffer has that many bytes and \<open>off + count\<close> stays below \<open>2^63\<close>, the call
  returns \<open>count\<close>, the loop has ended with \<open>off + count \<le> allocated_size\<close>, and
  the copy was inside the buffer.
\<close>

lemma krealloc_length: "length (krealloc p n) = n"
  by (simp add: krealloc_def)

lemma devtmpfs_write_fits:
  assumes pos: "0 < allocated_size this"
    and len: "length (data this) = unat (allocated_size this)"
    and small: "unat off + unat count < 2 ^ 63"
  shows "\<exists>this'. devtmpfs_write this buf off count = Some (Inr (this', count)) \<and>
           unat off + unat count \<le> unat (allocated_size this') \<and>
           length (data this') = unat (allocated_size this') \<and>
           st_size this' = st_size this + count"
proof -
  have sum: "unat (off + count) = unat off + unat count"
    using small by (simp add: unat_word_ariths)
  have "unat off < 2 ^ 63"
    using small by simp
  then have u: "uint off < 2 ^ 63"
    by (metis uint_nat of_nat_less_iff of_nat_numeral of_nat_power)
  have "signed_take_bit 63 (uint off) = uint off"
  proof (rule signed_take_bit_int_eq_self)
    have "- (2 ^ 63) \<le> (0 :: int)" by simp
    also have "(0 :: int) \<le> uint off" by simp
    finally show "- (2 ^ 63) \<le> uint off" .
    show "uint off < 2 ^ 63" by (rule u)
  qed
  then have "sint off = uint off"
    by (simp add: sint_uint)
  then have off: "sint off = int (unat off)"
    by simp
  have copy: "memcpy_to d (sint off) buf (unat count) =
      Inr (take (unat off) d @ map buf [0..<unat count] @ drop (unat off + unat count) d)"
    if "unat off + unat count \<le> length d" for d
    using that by (simp add: memcpy_to_def off)
  show ?thesis
  proof (cases "allocated_size this < off + count")
    case False
    then have fit: "unat off + unat count \<le> length (data this)"
      using sum len by (simp add: word_less_nat_alt)
    then show ?thesis
      using False len by (simp add: devtmpfs_write_def copy)
  next
    case True
    from grow_loop_fits [OF _ pos, of off count] small
    obtain a where a: "grow_loop off count (allocated_size this) = Some a" "off + count \<le> a"
      by auto
    have fit: "unat off + unat count \<le> unat a"
      using a(2) sum by (simp add: word_le_nat_alt)
    then show ?thesis
      using True a(1) by (simp add: devtmpfs_write_def copy krealloc_length)
  qed
qed


text \<open>
  C10: on a fresh resource (4096 bytes allocated) a write of \<open>2^64 - 1\<close> bytes at
  offset 1 passes the test of line 78, because \<open>off + count\<close> wraps to 0; the
  growth loop is not entered and the copy leaves the allocation. A write of
  \<open>2^63 + 1\<close> bytes at offset 0 never returns: the loop doubles
  \<open>allocated_size\<close> up to \<open>2^63\<close>, then to 0, and stays there.
\<close>

theorem devtmpfs_write_overflow:
  "devtmpfs_write fresh_resource buf 1 0xFFFFFFFFFFFFFFFF = Some (Inl OutOfBounds) \<and>
   grow_loop 1 0xFFFFFFFFFFFFFFFF (allocated_size fresh_resource) =
     Some (allocated_size fresh_resource) \<and>
   unat (allocated_size fresh_resource) < unat (1 :: u64) + unat (0xFFFFFFFFFFFFFFFF :: u64) \<and>
   devtmpfs_write fresh_resource buf 0 0x8000000000000001 = None"
proof -
  have "devtmpfs_write fresh_resource buf 1 0xFFFFFFFFFFFFFFFF = Some (Inl OutOfBounds)"
    by (simp add: devtmpfs_write_def fresh_resource_def memcpy_to_def)
  moreover have "grow_loop 1 0xFFFFFFFFFFFFFFFF (allocated_size fresh_resource) =
      Some (allocated_size fresh_resource)"
    by (simp add: grow_done fresh_resource_def)
  moreover have
    "unat (allocated_size fresh_resource) < unat (1 :: u64) + unat (0xFFFFFFFFFFFFFFFF :: u64)"
    by (simp add: fresh_resource_def)
  moreover have "devtmpfs_write fresh_resource buf 0 0x8000000000000001 = None"
    by (simp add: devtmpfs_write_def fresh_resource_def grow_hangs)
  ultimately show ?thesis by simp
qed

end
